theory Spec2Isabelle
  imports Main
begin

section \<open>Data model (types.ts)\<close>

text \<open>
  The interfaces \<open>QuizQuestion\<close>, \<open>QuizData\<close> and \<open>QuizResult\<close>. A JavaScript \<open>number\<close>
  that holds an identifier, an index, a count of questions or a timestamp is an \<open>int\<close>.
  The mastery counters, on which the code computes, are modelled as doubles below. The fields \<open>id\<close> are
  named \<open>id_q\<close> and \<open>id_r\<close>; the fields of \<open>QuizResult\<close> carry the suffix \<open>_r\<close>.
\<close>

record QuizQuestion =
  id_q :: int
  question :: string
  options :: "string list"
  correctAnswerIndex :: int
  explanation :: string
  topic :: string

record QuizData =
  title :: string
  questions :: "QuizQuestion list"

record QuizResult =
  id_r :: string
  title_r :: string
  score_r :: int
  totalQuestions_r :: int
  date_r :: int
  topic_r :: "string option"

section \<open>The host: localStorage, JSON, Set\<close>

text \<open>
  What \<open>localStorage.getItem(key)\<close> holds, as far as \<open>JSON.parse(getItem(key) || dflt)\<close>
  can tell: \<open>Absent\<close> is \<open>null\<close> (no such key) or the empty string, both falsy, so
  that the default text is parsed instead; \<open>Unparsable\<close> is a non-empty text that
  \<open>JSON.parse\<close> rejects with a \<open>SyntaxError\<close>; \<open>Stored v\<close> is a text that parses to
  \<open>v\<close>. Texts that parse to a value of another shape are not modelled.
\<close>

datatype 'a entry = Absent | Unparsable | Stored 'a

datatype error = SyntaxError

definition readItem :: "'a \<Rightarrow> 'a entry \<Rightarrow> error + 'a" where
  "readItem dflt e =
     (case e of Absent \<Rightarrow> Inr dflt | Unparsable \<Rightarrow> Inl SyntaxError | Stored v \<Rightarrow> Inr v)"

text \<open>
  The values that a property of the mastery object holds, or that the loop computes for
  it. \<open>Number n\<close> is the double of integer value \<open>n\<close>. \<open>Str p k\<close> is the string that
  starts with the text \<open>p\<close> and goes on with \<open>k\<close> characters \<open>1\<close>, where the text is
  either what \<open>Function.prototype.toString\<close> prints for the built-in function that
  \<open>Object.prototype\<close> holds under a name (for \<open>constructor\<close>, in V8,
  \<open>function Object() { [native code] }\<close>), or \<open>[object Object]\<close>: these are the strings
  that the loop can make. Fractions, infinities, other strings, booleans, arrays and
  nested objects are values of another shape.
\<close>

datatype source = FunctionSource string | ObjectObject

datatype jsvalue = Null | Number int | NaN | Str source nat

text \<open>
  The double nearest to an integer, ties to the even mantissa. An integer of magnitude at
  most \<open>2^53\<close> is a double. Above, an integer of \<open>b\<close> bits lies between doubles that are
  \<open>2^(b - 53)\<close> apart. The argument is \<open>n + 1\<close> or \<open>n - 1\<close> for a double \<open>n\<close>, so that
  the result never exceeds the largest double.
\<close>

fun bits :: "nat \<Rightarrow> nat" where
  "bits n = (if n = 0 then 0 else Suc (bits (n div 2)))"

definition round_double :: "int \<Rightarrow> int" where
  "round_double x =
     (let a = nat \<bar>x\<bar> in
      if a \<le> 2 ^ 53 then x
      else
        let u = 2 ^ (bits a - 53); q = a div u; r = a mod u;
            q' = (if u < 2 * r \<or> (2 * r = u \<and> odd q) then q + 1 else q)
        in sgn x * int (q' * u))"

text \<open>
  \<open>JSON.parse\<close> returns an ordinary object: its own properties are the keys of the text,
  and it inherits from \<open>Object.prototype\<close>, whose members are built-in functions and the
  accessor \<open>__proto__\<close>. A property read gives the own value, else the inherited member,
  else \<open>undefined\<close>.
\<close>

definition Object_prototype_functions :: "string list" where
  "Object_prototype_functions =
     [''constructor'', ''__defineGetter__'', ''__defineSetter__'', ''hasOwnProperty'',
      ''__lookupGetter__'', ''__lookupSetter__'', ''isPrototypeOf'', ''propertyIsEnumerable'',
      ''toString'', ''valueOf'', ''toLocaleString'']"

definition Object_prototype_names :: "string list" where
  "Object_prototype_names = ''__proto__'' # Object_prototype_functions"

datatype lookup = Own jsvalue | Builtin string | Prototype | Undefined

definition js_get :: "(string \<rightharpoonup> jsvalue) \<Rightarrow> string \<Rightarrow> lookup" where
  "js_get obj k =
     (case obj k of
        Some v \<Rightarrow> Own v
      | None \<Rightarrow>
          if k = ''__proto__'' then Prototype
          else if k \<in> set Object_prototype_functions then Builtin k
          else Undefined)"

text \<open>
  \<open>obj[k] = v\<close> for a number or a string \<open>v\<close>: an own property is overwritten; a name
  that is not own becomes an own property, also when a function is inherited under it;
  the inherited setter of \<open>__proto__\<close> ignores a value that is neither an object nor
  \<open>null\<close>, so that nothing is stored.
\<close>

definition js_set :: "(string \<rightharpoonup> jsvalue) \<Rightarrow> string \<Rightarrow> jsvalue \<Rightarrow> (string \<rightharpoonup> jsvalue)" where
  "js_set obj k v = (if obj k = None \<and> k = ''__proto__'' then obj else obj(k \<mapsto> v))"

text \<open>\<open>x || 0\<close>: \<open>undefined\<close>, \<open>null\<close>, \<open>0\<close> and \<open>NaN\<close> are falsy; the strings here are not empty.\<close>

fun truthy :: "lookup \<Rightarrow> bool" where
  "truthy (Own Null) = False"
| "truthy (Own (Number n)) = (n \<noteq> 0)"
| "truthy (Own NaN) = False"
| "truthy (Own (Str p k)) = True"
| "truthy (Builtin f) = True"
| "truthy Prototype = True"
| "truthy Undefined = False"

definition or_zero :: "lookup \<Rightarrow> lookup" where
  "or_zero x = (if truthy x then x else Own (Number 0))"

text \<open>
  \<open>x + 1\<close>: a string, or an object, which is first turned into its string, is
  concatenated with \<open>1\<close>; anything else is turned into a number and added to.
\<close>

fun plus_1 :: "lookup \<Rightarrow> jsvalue" where
  "plus_1 (Own Null) = Number 1"
| "plus_1 (Own (Number n)) = Number (round_double (n + 1))"
| "plus_1 (Own NaN) = NaN"
| "plus_1 (Own (Str p k)) = Str p (Suc k)"
| "plus_1 (Builtin f) = Str (FunctionSource f) 1"
| "plus_1 Prototype = Str ObjectObject 1"
| "plus_1 Undefined = NaN"

text \<open>\<open>x - 1\<close>: the operand is turned into a number; none of the strings here is numeric.\<close>

fun minus_1 :: "lookup \<Rightarrow> jsvalue" where
  "minus_1 (Own Null) = Number (- 1)"
| "minus_1 (Own (Number n)) = Number (round_double (n - 1))"
| "minus_1 (Own NaN) = NaN"
| "minus_1 (Own (Str p k)) = NaN"
| "minus_1 (Builtin f) = NaN"
| "minus_1 Prototype = NaN"
| "minus_1 Undefined = NaN"

text \<open>\<open>Math.max(z, v)\<close> for an integer \<open>z\<close>: \<open>NaN\<close> as soon as \<open>v\<close> is not a number.\<close>

fun Math_max :: "int \<Rightarrow> jsvalue \<Rightarrow> jsvalue" where
  "Math_max z Null = Number (max z 0)"
| "Math_max z (Number n) = Number (max z n)"
| "Math_max z NaN = NaN"
| "Math_max z (Str p k) = NaN"

text \<open>
  What \<open>JSON.stringify\<close> writes for the mastery object, as the value that the text parses
  to: \<open>NaN\<close> is written as \<open>null\<close>.
\<close>

definition JSON_stringify :: "(string \<rightharpoonup> jsvalue) \<Rightarrow> (string \<rightharpoonup> jsvalue)" where
  "JSON_stringify obj = (\<lambda>k. case obj k of Some NaN \<Rightarrow> Some Null | r \<Rightarrow> r)"

text \<open>The three keys that the quiz components read and write.\<close>

record storage =
  studyBuddy_topic_mastery :: "(string \<rightharpoonup> jsvalue) entry"
  studyBuddy_weakTopics :: "string list entry"
  studyBuddy_quizHistory :: "QuizResult list entry"

text \<open>
  A JavaScript \<open>Set\<close> keeps its elements in insertion order, which \<open>Array.from\<close> makes
  visible: it is a list without repetition. \<open>new_Set\<close> keeps the first occurrence of
  each element of the array; \<open>Array.from\<close> is the identity on this representation.
\<close>

definition set_has :: "'a \<Rightarrow> 'a list \<Rightarrow> bool" where
  "set_has x s = (x \<in> set s)"

definition set_add :: "'a \<Rightarrow> 'a list \<Rightarrow> 'a list" where
  "set_add x s = (if x \<in> set s then s else s @ [x])"

definition set_delete :: "'a \<Rightarrow> 'a list \<Rightarrow> 'a list" where
  "set_delete x s = removeAll x s"

definition new_Set :: "'a list \<Rightarrow> 'a list" where
  "new_Set xs = foldl (\<lambda>s x. set_add x s) [] xs"

text \<open>\<open>Date.now().toString()\<close>: the decimal digits of an integer.\<close>

definition digit :: "nat \<Rightarrow> char" where
  "digit d =
     (if d = 0 then CHR ''0'' else if d = 1 then CHR ''1'' else if d = 2 then CHR ''2''
      else if d = 3 then CHR ''3'' else if d = 4 then CHR ''4'' else if d = 5 then CHR ''5''
      else if d = 6 then CHR ''6'' else if d = 7 then CHR ''7'' else if d = 8 then CHR ''8''
      else CHR ''9'')"

fun string_of_nat :: "nat \<Rightarrow> string" where
  "string_of_nat n =
     (if n < 10 then [digit n] else string_of_nat (n div 10) @ [digit (n mod 10)])"

definition toString :: "int \<Rightarrow> string" where
  "toString i = (if i < 0 then CHR ''-'' # string_of_nat (nat (- i)) else string_of_nat (nat i))"

section \<open>QuizOverlay.tsx: handleSubmit\<close>

text \<open>
  The variables that the \<open>forEach\<close> loop of \<open>handleSubmit\<close> updates. \<open>currentMastery\<close>
  is the object parsed from storage, given by its own properties.
\<close>

record tally =
  correctCount :: int
  currentMastery :: "string \<rightharpoonup> jsvalue"
  weakTopicsSet :: "string list"

text \<open>\<open>answers[q.id] === q.correctAnswerIndex\<close>, with \<open>answers : Record<number, number>\<close>.\<close>

definition isCorrect :: "(int \<rightharpoonup> int) \<Rightarrow> QuizQuestion \<Rightarrow> bool" where
  "isCorrect answers q = (answers (id_q q) = Some (correctAnswerIndex q))"

definition forEach_body :: "(int \<rightharpoonup> int) \<Rightarrow> QuizQuestion \<Rightarrow> tally \<Rightarrow> tally" where
  "forEach_body answers q st =
     (if isCorrect answers q then
        let st1 = st\<lparr>correctCount := correctCount st + 1\<rparr>;
            st2 = (if set_has (topic q) (weakTopicsSet st1)
                   then st1\<lparr>weakTopicsSet := set_delete (topic q) (weakTopicsSet st1)\<rparr>
                   else st1)
        in st2\<lparr>currentMastery :=
                 js_set (currentMastery st2) (topic q)
                   (plus_1 (or_zero (js_get (currentMastery st2) (topic q))))\<rparr>
      else
        let st1 = st\<lparr>weakTopicsSet := set_add (topic q) (weakTopicsSet st)\<rparr>
        in st1\<lparr>currentMastery :=
                 js_set (currentMastery st1) (topic q)
                   (Math_max 0 (minus_1 (or_zero (js_get (currentMastery st1) (topic q)))))\<rparr>)"

fun forEach :: "(int \<rightharpoonup> int) \<Rightarrow> QuizQuestion list \<Rightarrow> tally \<Rightarrow> tally" where
  "forEach answers [] st = st"
| "forEach answers (q # qs) st = forEach answers qs (forEach_body answers q st)"

text \<open>
  The state of the component that \<open>handleSubmit\<close> reads and sets, and the world it
  runs in. The confetti animation is not modelled.
\<close>

record QuizOverlay =
  quizData :: "QuizData option"
  answers :: "int \<rightharpoonup> int"
  focusTopic :: string
  selectedSubject :: string
  score :: int
  submitted :: bool

type_synonym world = "QuizOverlay \<times> storage"

text \<open>
  A handler either returns, or throws with the world as it is at that moment:
  nothing in \<open>handleSubmit\<close> catches, and the writes made before the throw stay.
\<close>

datatype completion = Returns world | Throws error world

definition topicDisplay :: "string \<Rightarrow> string \<Rightarrow> string" where
  "topicDisplay focus subject =
     (let t0 = focus;
          t1 = (if t0 = [] \<and> subject \<noteq> ''General / Any'' then subject else t0)
      in if t1 = [] then ''General'' else t1)"

definition result :: "int \<Rightarrow> int \<Rightarrow> QuizOverlay \<Rightarrow> QuizData \<Rightarrow> int \<Rightarrow> QuizResult" where
  "result now1 now2 c qd cnt =
     \<lparr>id_r = toString now1,
      title_r = title qd,
      score_r = cnt,
      totalQuestions_r = int (length (questions qd)),
      date_r = now2,
      topic_r = Some (topicDisplay (focusTopic c) (selectedSubject c))\<rparr>"

text \<open>\<open>now1\<close> and \<open>now2\<close> are what the two calls of \<open>Date.now()\<close> return.\<close>

definition handleSubmit :: "int \<Rightarrow> int \<Rightarrow> world \<Rightarrow> completion" where
  "handleSubmit now1 now2 w =
     (let c = fst w; s = snd w in
      case quizData c of
        None \<Rightarrow> Returns (c, s)
      | Some qd \<Rightarrow>
         (case readItem Map.empty (studyBuddy_topic_mastery s) of
            Inl e \<Rightarrow> Throws e (c, s)
          | Inr m0 \<Rightarrow>
             (case readItem [] (studyBuddy_weakTopics s) of
                Inl e \<Rightarrow> Throws e (c, s)
              | Inr w0 \<Rightarrow>
                 let st = forEach (answers c) (questions qd)
                            \<lparr>correctCount = 0, currentMastery = m0, weakTopicsSet = new_Set w0\<rparr>;
                     s1 = s\<lparr>studyBuddy_topic_mastery := Stored (JSON_stringify (currentMastery st))\<rparr>;
                     s2 = s1\<lparr>studyBuddy_weakTopics := Stored (weakTopicsSet st)\<rparr>
                 in (case readItem [] (studyBuddy_quizHistory s2) of
                       Inl e \<Rightarrow> Throws e (c, s2)
                     | Inr existingHistory \<Rightarrow>
                        Returns
                          (c\<lparr>score := correctCount st, submitted := True\<rparr>,
                           s2\<lparr>studyBuddy_quizHistory :=
                                 Stored (existingHistory @ [result now1 now2 c qd (correctCount st)])\<rparr>)))))"

text \<open>
  The effect that \<open>QuizOverlay\<close> runs on mount loads the weak topics for the setup
  screen. It reads the same key as \<open>handleSubmit\<close>, inside \<open>try\<close>/\<open>catch\<close>: a text
  that does not parse is logged to the console, and \<open>availableWeakTopics\<close> keeps its
  initial value, the empty array.
\<close>

definition useEffect_availableWeakTopics :: "storage \<Rightarrow> string list" where
  "useEffect_availableWeakTopics s =
     (case studyBuddy_weakTopics s of
        Absent \<Rightarrow> []
      | Unparsable \<Rightarrow> []
      | Stored v \<Rightarrow> v)"

section \<open>QuizHistoryModal: clearHistory\<close>

text \<open>
  The modal's state is the list it displays. \<open>confirmed\<close> is what the \<open>confirm\<close> dialog
  returns; \<open>removeItem\<close> leaves the key absent.
\<close>

definition clearHistory :: "bool \<Rightarrow> QuizResult list \<times> storage \<Rightarrow> QuizResult list \<times> storage" where
  "clearHistory confirmed m =
     (if confirmed then ([], (snd m)\<lparr>studyBuddy_quizHistory := Absent\<rparr>) else m)"

section \<open>The outcomes of a quiz, and the update in the words of the specification\<close>

text \<open>The (topic, isCorrect) outcome that the loop derives from each question.\<close>

definition outcomes :: "(int \<rightharpoonup> int) \<Rightarrow> QuizQuestion list \<Rightarrow> (string \<times> bool) list" where
  "outcomes a qs = map (\<lambda>q. (topic q, isCorrect a q)) qs"

text \<open>
  The specification's contract for one outcome, on a mastery map and a set of weak
  topics: correct adds one to the counter (0 when absent) and removes the topic from the
  set; incorrect subtracts one, not below 0, and adds the topic to the set.
\<close>

definition spec_outcome ::
  "(string \<rightharpoonup> int) \<times> string set \<Rightarrow> string \<times> bool \<Rightarrow> (string \<rightharpoonup> int) \<times> string set" where
  "spec_outcome mw oc =
     (let m = fst mw; w = snd mw; t = fst oc;
          old = (case m t of None \<Rightarrow> 0 | Some v \<Rightarrow> v)
      in if snd oc then (m(t \<mapsto> old + 1), w - {t})
         else (m(t \<mapsto> max 0 (old - 1)), insert t w))"

definition spec_update ::
  "(string \<rightharpoonup> int) \<times> string set \<Rightarrow> (string \<times> bool) list \<Rightarrow> (string \<rightharpoonup> int) \<times> string set" where
  "spec_update mw os = foldl spec_outcome mw os"

section \<open>Example data\<close>

definition mkq :: "int \<Rightarrow> int \<Rightarrow> string \<Rightarrow> QuizQuestion" where
  "mkq i k t = \<lparr>id_q = i, question = ''Q'', options = [''a'', ''b''],
                correctAnswerIndex = k, explanation = ''E'', topic = t\<rparr>"

definition quiz3 :: "QuizQuestion list" where
  "quiz3 = [mkq 1 0 ''Thermodynamics'', mkq 2 0 ''Thermodynamics'', mkq 3 1 ''Algebra'']"

definition answers3 :: "int \<rightharpoonup> int" where
  "answers3 = [1 \<mapsto> 0, 2 \<mapsto> 1, 3 \<mapsto> 0]"

definition tally0 :: tally where
  "tally0 = \<lparr>correctCount = 0, currentMastery = Map.empty, weakTopicsSet = []\<rparr>"

definition tally1 :: tally where
  "tally1 = \<lparr>correctCount = 0, currentMastery = [''Algebra'' \<mapsto> Number 2],
              weakTopicsSet = [''Optics'']\<rparr>"

definition quizdata3 :: QuizData where
  "quizdata3 = \<lparr>title = ''Physics and maths'', questions = quiz3\<rparr>"

definition overlay3 :: QuizOverlay where
  "overlay3 = \<lparr>quizData = Some quizdata3, answers = answers3, focusTopic = [],
               selectedSubject = ''Physics'', score = 0, submitted = False\<rparr>"

definition result0 :: QuizResult where
  "result0 = \<lparr>id_r = ''1700000000000'', title_r = ''Earlier quiz'', score_r = 2,
              totalQuestions_r = 5, date_r = 1700000000000, topic_r = Some ''General''\<rparr>"

definition storage1 :: storage where
  "storage1 = \<lparr>studyBuddy_topic_mastery = Stored [''Algebra'' \<mapsto> Number 2],
               studyBuddy_weakTopics = Stored [''Optics''],
               studyBuddy_quizHistory = Stored [result0]\<rparr>"

definition storage_corrupt :: storage where
  "storage_corrupt = storage1\<lparr>studyBuddy_topic_mastery := Unparsable\<rparr>"

text \<open>
  Questions that realise a given list of outcomes, under the answers \<open>[0 \<mapsto> 0]\<close>: every
  question has the id 0, and the index of its right answer is 0 exactly when the outcome
  is correct.
\<close>

definition realise :: "(string \<times> bool) list \<Rightarrow> QuizQuestion list" where
  "realise os = map (\<lambda>oc. mkq 0 (if snd oc then 0 else 1) (fst oc)) os"

section \<open>Properties of the loop\<close>

declare bits.simps [simp del]

text \<open>Rounding keeps an integer within \<open>2^53\<close>, and keeps the sign.\<close>

lemma round_double_exact: "\<bar>x\<bar> \<le> 2 ^ 53 \<Longrightarrow> round_double x = x"
  by (simp add: round_double_def Let_def nat_le_iff)

lemma round_double_nonpos: "x \<le> 0 \<Longrightarrow> round_double x \<le> 0"
  by (simp add: round_double_def Let_def mult_le_0_iff sgn_if)

lemma round_double_nonneg: "0 \<le> x \<Longrightarrow> 0 \<le> round_double x"
  by (simp add: round_double_def Let_def zero_le_mult_iff sgn_if)

lemma bits_2_53_1: "bits 9007199254740993 = 54"
  by (simp add: bits.simps)

lemma round_2_53_1: "round_double 9007199254740993 = 9007199254740992"
  by (simp add: round_double_def Let_def bits_2_53_1)

lemma bits_2_54_1: "bits 18014398509481983 = 54"
  by (simp add: bits.simps)

lemma round_2_54_1: "round_double 18014398509481983 = 18014398509481984"
  by (simp add: round_double_def Let_def bits_2_54_1)

lemma forEach_append: "forEach a (qs @ rs) st = forEach a rs (forEach a qs st)"
  by (induction qs arbitrary: st) simp_all

lemma body_weak:
  "set (weakTopicsSet (forEach_body a q st)) =
     (if isCorrect a q then set (weakTopicsSet st) - {topic q}
      else insert (topic q) (set (weakTopicsSet st)))"
  by (auto simp: forEach_body_def Let_def set_has_def set_add_def set_delete_def)

lemma body_count:
  "correctCount (forEach_body a q st) = correctCount st + (if isCorrect a q then 1 else 0)"
  by (simp add: forEach_body_def Let_def)

lemma body_mastery:
  "currentMastery (forEach_body a q st) =
     js_set (currentMastery st) (topic q)
       (if isCorrect a q then plus_1 (or_zero (js_get (currentMastery st) (topic q)))
        else Math_max 0 (minus_1 (or_zero (js_get (currentMastery st) (topic q)))))"
  by (simp add: forEach_body_def Let_def)

lemma forEach_count:
  "correctCount (forEach a qs st) = correctCount st + int (length (filter (isCorrect a) qs))"
  by (induction qs arbitrary: st) (simp_all add: body_count)

text \<open>The loop assigns numbers and strings only, never \<open>null\<close>.\<close>

lemma loop_assigns_no_null: "plus_1 x \<noteq> Null \<and> Math_max z (minus_1 x) \<noteq> Null"
  by (cases x rule: plus_1.cases) simp_all

lemma js_set_other: "t \<noteq> k \<Longrightarrow> js_set obj k v t = obj t"
  by (simp add: js_set_def)

text \<open>On a name that \<open>Object.prototype\<close> does not hold, the object is a dictionary.\<close>

lemma js_get_plain:
  "k \<notin> set Object_prototype_names \<Longrightarrow>
   js_get obj k = (case obj k of None \<Rightarrow> Undefined | Some v \<Rightarrow> Own v)"
  by (simp add: js_get_def Object_prototype_names_def split: option.splits)

lemma js_set_plain:
  "k \<notin> set Object_prototype_names \<Longrightarrow> js_set obj k v = obj(k \<mapsto> v)"
  by (simp add: js_set_def Object_prototype_names_def)

lemma plain_plus:
  assumes "k \<notin> set Object_prototype_names" and "obj k = map_option Number c"
    and "\<bar>(case c of None \<Rightarrow> 0 | Some n \<Rightarrow> n) + 1\<bar> \<le> 2 ^ 53"
  shows "plus_1 (or_zero (js_get obj k)) = Number ((case c of None \<Rightarrow> 0 | Some n \<Rightarrow> n) + 1)"
  using assms by (cases c) (auto simp: js_get_plain or_zero_def round_double_exact)

lemma plain_minus:
  assumes "k \<notin> set Object_prototype_names" and "obj k = map_option Number c"
    and "(case c of None \<Rightarrow> 0 | Some n \<Rightarrow> n) \<le> 2 ^ 53"
  shows "Math_max 0 (minus_1 (or_zero (js_get obj k))) =
         Number (max 0 ((case c of None \<Rightarrow> 0 | Some n \<Rightarrow> n) - 1))"
proof -
  let ?n = "case c of None \<Rightarrow> 0 | Some n \<Rightarrow> n"
  have g: "minus_1 (or_zero (js_get obj k)) = Number (round_double (?n - 1))"
    using assms(1,2) by (cases c) (auto simp: js_get_plain or_zero_def)
  have "max 0 (round_double (?n - 1)) = max 0 (?n - 1)"
  proof (cases "- (2 ^ 53) < ?n")
    case True
    with assms(3) have "\<bar>?n - 1\<bar> \<le> 2 ^ 53" by simp
    then show ?thesis by (simp add: round_double_exact)
  next
    case False
    then have "?n - 1 \<le> 0" by simp
    from round_double_nonpos [OF this] this show ?thesis by simp
  qed
  with g show ?thesis by simp
qed

lemma embed_upd: "(map_option Number \<circ> ms)(t \<mapsto> Number v) = map_option Number \<circ> (ms(t \<mapsto> v))"
  by (rule ext) simp

lemma body_refines_spec_outcome:
  assumes plain: "topic q \<notin> set Object_prototype_names"
    and rep: "currentMastery st = map_option Number \<circ> ms"
    and small: "\<bar>case ms (topic q) of None \<Rightarrow> 0 | Some n \<Rightarrow> n\<bar> + 1 \<le> 2 ^ 53"
  shows "(currentMastery (forEach_body a q st), set (weakTopicsSet (forEach_body a q st))) =
         (map_option Number \<circ> fst (spec_outcome (ms, set (weakTopicsSet st)) (topic q, isCorrect a q)),
          snd (spec_outcome (ms, set (weakTopicsSet st)) (topic q, isCorrect a q)))"
proof -
  let ?c = "ms (topic q)"
  let ?n = "case ?c of None \<Rightarrow> 0 | Some n \<Rightarrow> n"
  let ?v = "if isCorrect a q then ?n + 1 else max 0 (?n - 1)"
  have own: "currentMastery st (topic q) = map_option Number ?c"
    by (simp add: rep)
  have up: "\<bar>?n + 1\<bar> \<le> 2 ^ 53" and down: "?n \<le> 2 ^ 53"
    using small by linarith+
  have "currentMastery (forEach_body a q st) = (currentMastery st)(topic q \<mapsto> Number ?v)"
    using plain_plus [where k = "topic q" and obj = "currentMastery st" and c = "ms (topic q)", OF plain own up]
      plain_minus [where k = "topic q" and obj = "currentMastery st" and c = "ms (topic q)", OF plain own down]
    by (simp add: body_mastery js_set_plain [OF plain])
  also have "\<dots> = map_option Number \<circ> (ms(topic q \<mapsto> ?v))"
    unfolding rep by (rule embed_upd)
  finally have m: "currentMastery (forEach_body a q st) = map_option Number \<circ> (ms(topic q \<mapsto> ?v))" .
  have s: "spec_outcome (ms, set (weakTopicsSet st)) (topic q, isCorrect a q) =
        (ms(topic q \<mapsto> ?v),
         if isCorrect a q then set (weakTopicsSet st) - {topic q}
         else insert (topic q) (set (weakTopicsSet st)))"
    by (simp add: spec_outcome_def Let_def)
  show ?thesis unfolding m s by (simp add: body_weak)
qed

lemma spec_outcome_bound:
  assumes "\<forall>t n. ms t = Some n \<longrightarrow> \<bar>n\<bar> + (k + 1) \<le> B" and "k + 1 \<le> B"
  shows "\<forall>t n. fst (spec_outcome (ms, W) oc) t = Some n \<longrightarrow> \<bar>n\<bar> + (k::int) \<le> B"
proof (intro allI impI)
  fix t n
  assume h: "fst (spec_outcome (ms, W) oc) t = Some n"
  show "\<bar>n\<bar> + k \<le> B"
  proof (cases "t = fst oc")
    case False
    with h have "ms t = Some n" by (simp add: spec_outcome_def Let_def split: if_splits)
    with assms(1) have "\<bar>n\<bar> + (k + 1) \<le> B" by blast
    then show ?thesis by simp
  next
    case True
    let ?old = "case ms t of None \<Rightarrow> 0 | Some v \<Rightarrow> v"
    have old: "\<bar>?old\<bar> + (k + 1) \<le> B"
      using assms by (auto split: option.splits)
    from h True have "n = ?old + 1 \<or> n = max 0 (?old - 1)"
      by (auto simp: spec_outcome_def Let_def split: if_splits)
    with old show ?thesis by auto
  qed
qed

text \<open>Evaluation on the example data.\<close>

lemma plain_examples:
  "''Thermodynamics'' \<notin> set Object_prototype_names"
  "''Algebra'' \<notin> set Object_prototype_names"
  "''Optics'' \<notin> set Object_prototype_names"
  by (simp_all add: Object_prototype_names_def Object_prototype_functions_def)

lemma constructor_builtin: "js_get Map.empty ''constructor'' = Builtin ''constructor''"
  by (simp add: js_get_def Object_prototype_functions_def)

lemma JSON_stringify_empty: "JSON_stringify Map.empty = Map.empty"
  by (rule ext) (simp add: JSON_stringify_def)

lemma JSON_stringify_upd:
  "JSON_stringify (obj(k \<mapsto> v)) = (JSON_stringify obj)(k \<mapsto> (if v = NaN then Null else v))"
  by (rule ext) (simp add: JSON_stringify_def split: jsvalue.splits)

text \<open>The list that stands for the \<open>Set\<close> never repeats an element.\<close>

lemma set_new_Set_aux: "set (foldl (\<lambda>s x. set_add x s) acc xs) = set acc \<union> set xs"
  by (induction xs arbitrary: acc) (auto simp: set_add_def)

lemma set_new_Set: "set (new_Set xs) = set xs"
  by (simp add: new_Set_def set_new_Set_aux)

lemma distinct_new_Set_aux: "distinct acc \<Longrightarrow> distinct (foldl (\<lambda>s x. set_add x s) acc xs)"
  by (induction xs arbitrary: acc) (auto simp: set_add_def)

lemma distinct_new_Set: "distinct (new_Set xs)"
  by (simp add: new_Set_def distinct_new_Set_aux)

lemma distinct_body:
  "distinct (weakTopicsSet st) \<Longrightarrow> distinct (weakTopicsSet (forEach_body a q st))"
  by (auto simp: forEach_body_def Let_def set_has_def set_add_def set_delete_def distinct_removeAll)

lemma distinct_forEach:
  "distinct (weakTopicsSet st) \<Longrightarrow> distinct (weakTopicsSet (forEach a qs st))"
  by (induction qs arbitrary: st) (simp_all add: distinct_body)

text \<open>Every list of outcomes is the list of outcomes of some quiz and answers.\<close>

lemma outcomes_realise: "outcomes [0 \<mapsto> 0] (realise os) = os"
  by (induction os) (auto simp: outcomes_def realise_def mkq_def isCorrect_def)

text \<open>
  The inherited name \<open>__proto__\<close>: the loop reads \<open>Object.prototype\<close>, and its assignment
  stores nothing.
\<close>

lemma proto_correct_stores_nothing:
  "currentMastery (forEach [1 \<mapsto> 0] [mkq 1 0 ''__proto__''] tally0) = Map.empty"
  by (simp add: body_mastery tally0_def mkq_def isCorrect_def js_set_def)

text \<open>
  C1, as stated: from every mastery map and for every sequence of outcomes, a correct
  outcome leaves the counter plus 1 (0 when absent). Two submissions where the loop does
  otherwise: a counter of \<open>2^53\<close> stays \<open>2^53\<close>, since \<open>2^53 + 1\<close> is not a double; and
  on the topic \<open>constructor\<close>, absent from the map, the loop reads the function that the
  object inherits and stores a string.
\<close>

theorem forEach_differs_from_spec_update:
  "currentMastery (forEach [1 \<mapsto> 0] [mkq 1 0 ''Algebra'']
       \<lparr>correctCount = 0, currentMastery = [''Algebra'' \<mapsto> Number (2 ^ 53)], weakTopicsSet = []\<rparr>)
     ''Algebra'' = Some (Number (2 ^ 53)) \<and>
   fst (spec_update ([''Algebra'' \<mapsto> 2 ^ 53], {}) (outcomes [1 \<mapsto> 0] [mkq 1 0 ''Algebra'']))
     ''Algebra'' = Some (2 ^ 53 + 1) \<and>
   currentMastery (forEach [1 \<mapsto> 0] [mkq 1 0 ''constructor''] tally0) ''constructor'' =
     Some (Str (FunctionSource ''constructor'') 1) \<and>
   fst (spec_update (Map.empty, {}) (outcomes [1 \<mapsto> 0] [mkq 1 0 ''constructor'']))
     ''constructor'' = Some 1"
  by (simp add: body_mastery tally0_def mkq_def isCorrect_def or_zero_def js_set_def
      constructor_builtin js_get_plain js_set_plain plain_examples round_2_53_1
      spec_update_def spec_outcome_def outcomes_def)

text \<open>
  C1, amended: from every mastery map whose counters are integers that stay within
  \<open>2^53\<close> in magnitude when the number of outcomes is added, from every weak-topic set,
  and for every sequence of at most \<open>2^53\<close> outcomes whose topics do not name a member of
  \<open>Object.prototype\<close>, the loop of \<open>handleSubmit\<close> treats the outcomes in their order,
  and each one as the specification says: a correct one adds 1 to the topic's counter
  (0 when absent) and removes the topic from the weak topics; an incorrect one sets the
  counter to max(0, counter - 1) and adds the topic to the weak topics. The loop of the
  code and the fold of \<open>spec_outcome\<close> over the outcomes give the same mastery map and
  the same set.
\<close>

theorem forEach_refines_spec_update:
  assumes "\<forall>q\<in>set qs. topic q \<notin> set Object_prototype_names"
    and "currentMastery st = map_option Number \<circ> ms"
    and "\<forall>t n. ms t = Some n \<longrightarrow> \<bar>n\<bar> + int (length qs) \<le> 2 ^ 53"
    and "int (length qs) \<le> 2 ^ 53"
  shows "(currentMastery (forEach a qs st), set (weakTopicsSet (forEach a qs st))) =
         (map_option Number \<circ> fst (spec_update (ms, set (weakTopicsSet st)) (outcomes a qs)),
          snd (spec_update (ms, set (weakTopicsSet st)) (outcomes a qs)))"
  using assms
proof (induction qs arbitrary: st ms)
  case Nil
  then show ?case by (simp add: spec_update_def outcomes_def)
next
  case (Cons q qs)
  let ?W = "set (weakTopicsSet st)"
  let ?oc = "(topic q, isCorrect a q)"
  let ?ms' = "fst (spec_outcome (ms, ?W) ?oc)"
  let ?st' = "forEach_body a q st"
  have plain: "topic q \<notin> set Object_prototype_names"
    using Cons.prems(1) by simp
  have small: "\<bar>case ms (topic q) of None \<Rightarrow> 0 | Some n \<Rightarrow> n\<bar> + 1 \<le> 2 ^ 53"
  proof (cases "ms (topic q)")
    case None
    then show ?thesis by simp
  next
    case (Some n)
    with Cons.prems(3) have "\<bar>n\<bar> + int (length (q # qs)) \<le> 2 ^ 53" by blast
    with Some show ?thesis by simp
  qed
  have step: "(currentMastery ?st', set (weakTopicsSet ?st')) =
              (map_option Number \<circ> ?ms', snd (spec_outcome (ms, ?W) ?oc))"
    by (rule body_refines_spec_outcome [OF plain Cons.prems(2) small])
  have b: "\<forall>t n. ms t = Some n \<longrightarrow> \<bar>n\<bar> + (int (length qs) + 1) \<le> 2 ^ 53"
    using Cons.prems(3) by (simp add: add.commute)
  have l: "int (length qs) + 1 \<le> 2 ^ 53"
    using Cons.prems(4) by simp
  have bound': "\<forall>t n. ?ms' t = Some n \<longrightarrow> \<bar>n\<bar> + int (length qs) \<le> 2 ^ 53"
    by (rule spec_outcome_bound [OF b l])
  have ih: "(currentMastery (forEach a qs ?st'), set (weakTopicsSet (forEach a qs ?st'))) =
        (map_option Number \<circ> fst (spec_update (?ms', set (weakTopicsSet ?st')) (outcomes a qs)),
         snd (spec_update (?ms', set (weakTopicsSet ?st')) (outcomes a qs)))"
  proof (rule Cons.IH)
    show "\<forall>q\<in>set qs. topic q \<notin> set Object_prototype_names" using Cons.prems(1) by simp
    show "currentMastery ?st' = map_option Number \<circ> ?ms'" using step by simp
    show "\<forall>t n. ?ms' t = Some n \<longrightarrow> \<bar>n\<bar> + int (length qs) \<le> 2 ^ 53" by (rule bound')
    show "int (length qs) \<le> 2 ^ 53" using l by simp
  qed
  have unfold: "spec_update (ms, ?W) (outcomes a (q # qs)) =
                spec_update (?ms', set (weakTopicsSet ?st')) (outcomes a qs)"
    using step by (simp add: spec_update_def outcomes_def)
  show ?case using ih unfold by simp
qed

theorem forEach_refines_spec_update_witness:
  "(currentMastery (forEach answers3 quiz3 tally1), set (weakTopicsSet (forEach answers3 quiz3 tally1))) =
     (map_option Number \<circ>
        fst (spec_update ([''Algebra'' \<mapsto> 2], set (weakTopicsSet tally1)) (outcomes answers3 quiz3)),
      snd (spec_update ([''Algebra'' \<mapsto> 2], set (weakTopicsSet tally1)) (outcomes answers3 quiz3)))"
proof -
  have h1: "\<forall>q\<in>set quiz3. topic q \<notin> set Object_prototype_names"
    by (simp add: quiz3_def mkq_def plain_examples)
  have h2: "currentMastery tally1 = map_option Number \<circ> [''Algebra'' \<mapsto> 2]"
    by (rule ext) (simp add: tally1_def)
  have h3: "\<forall>t n. [''Algebra'' \<mapsto> 2::int] t = Some n \<longrightarrow> \<bar>n\<bar> + int (length quiz3) \<le> 2 ^ 53"
    by (simp add: quiz3_def)
  have h4: "int (length quiz3) \<le> 2 ^ 53"
    by (simp add: quiz3_def)
  show ?thesis
    by (rule forEach_refines_spec_update [OF h1 h2 h3 h4])
qed

text \<open>
  On topics that do not name a member of \<open>Object.prototype\<close>, counters that are
  integers at or above 0 stay so.
\<close>

lemma forEach_mastery_nonneg_plain:
  assumes "\<forall>q\<in>set qs. topic q \<notin> set Object_prototype_names"
    and "\<forall>t v. currentMastery st t = Some v \<longrightarrow> (\<exists>n. v = Number n \<and> 0 \<le> n)"
  shows "\<forall>t v. currentMastery (forEach a qs st) t = Some v \<longrightarrow> (\<exists>n. v = Number n \<and> 0 \<le> n)"
  using assms
proof (induction qs arbitrary: st)
  case Nil
  then show ?case by simp
next
  case (Cons q qs)
  have plain: "topic q \<notin> set Object_prototype_names"
    using Cons.prems(1) by simp
  obtain n where n: "or_zero (js_get (currentMastery st) (topic q)) = Own (Number n)" "0 \<le> n"
  proof (cases "currentMastery st (topic q)")
    case None
    then have "or_zero (js_get (currentMastery st) (topic q)) = Own (Number 0)"
      by (simp add: js_get_plain [OF plain] or_zero_def)
    then show ?thesis using that by simp
  next
    case (Some v)
    with Cons.prems(2) obtain m where "v = Number m" "0 \<le> m" by blast
    with Some have "or_zero (js_get (currentMastery st) (topic q)) = Own (Number m)"
      by (simp add: js_get_plain [OF plain] or_zero_def)
    with \<open>0 \<le> m\<close> show ?thesis using that by simp
  qed
  have new: "\<exists>k. (if isCorrect a q then plus_1 (Own (Number n))
                  else Math_max 0 (minus_1 (Own (Number n)))) = Number k \<and> 0 \<le> k"
    using n(2) by (simp add: round_double_nonneg)
  have "\<forall>t v. currentMastery (forEach_body a q st) t = Some v \<longrightarrow> (\<exists>n. v = Number n \<and> 0 \<le> n)"
  proof (intro allI impI)
    fix t v
    assume h: "currentMastery (forEach_body a q st) t = Some v"
    show "\<exists>n. v = Number n \<and> 0 \<le> n"
    proof (cases "t = topic q")
      case True
      with h new n(1) show ?thesis
        by (auto simp: body_mastery js_set_plain [OF plain] split: if_splits)
    next
      case False
      with h Cons.prems(2) show ?thesis by (simp add: body_mastery js_set_other)
    qed
  qed
  moreover have "\<forall>q\<in>set qs. topic q \<notin> set Object_prototype_names"
    using Cons.prems(1) by simp
  ultimately show ?case using Cons.IH by simp
qed

text \<open>
  C2. No counter should be negative after the loop when none was before. From the empty
  map, one question on the topic \<open>constructor\<close> that is answered incorrectly: line 115
  reads the inherited function, subtracts 1 and stores \<open>NaN\<close>, which is not a counter
  at or above 0 (\<open>handleSubmit_constructor_example\<close>: it is persisted as \<open>null\<close>). On
  topics that do not name a member of \<open>Object.prototype\<close> the counters stay at or
  above 0 (\<open>forEach_mastery_nonneg_plain\<close>).
\<close>

theorem constructor_incorrect_gives_NaN:
  "currentMastery (forEach Map.empty [mkq 1 0 ''constructor''] tally0) ''constructor'' = Some NaN"
  by (simp add: body_mastery tally0_def mkq_def isCorrect_def or_zero_def js_set_def
      constructor_builtin)

text \<open>
  C3. A topic that occurs in the quiz is among the weak topics after the loop exactly
  when the last question of that topic, in the order of the quiz, was answered
  incorrectly; the initial set of weak topics plays no part.
\<close>

theorem weak_topic_reflects_last_outcome:
  assumes "t \<in> topic ` set qs"
  shows "t \<in> set (weakTopicsSet (forEach a qs st)) \<longleftrightarrow>
         \<not> isCorrect a (last (filter (\<lambda>q. topic q = t) qs))"
  using assms
proof (induction qs rule: rev_induct)
  case Nil
  then show ?case by simp
next
  case (snoc q qs)
  show ?case
  proof (cases "topic q = t")
    case True
    then show ?thesis by (simp add: forEach_append body_weak)
  next
    case False
    with snoc.prems have "t \<in> topic ` set qs" by auto
    with snoc.IH False show ?thesis by (auto simp: forEach_append body_weak)
  qed
qed

theorem weak_topic_reflects_last_outcome_witness:
  "''Thermodynamics'' \<in> topic ` set quiz3 \<and>
   \<not> isCorrect answers3 (last (filter (\<lambda>q. topic q = ''Thermodynamics'') quiz3)) \<and>
   ''Thermodynamics'' \<in> set (weakTopicsSet (forEach answers3 quiz3 tally1))"
proof -
  have h: "''Thermodynamics'' \<in> topic ` set quiz3"
    by (simp add: quiz3_def mkq_def)
  have l: "\<not> isCorrect answers3 (last (filter (\<lambda>q. topic q = ''Thermodynamics'') quiz3))"
    by (simp add: quiz3_def mkq_def answers3_def isCorrect_def)
  from weak_topic_reflects_last_outcome [OF h, of answers3 tally1] h l show ?thesis by blast
qed

text \<open>
  C4. On an empty mastery map and an empty weak-topic set, the outcomes
  (Thermodynamics, correct), (Thermodynamics, incorrect), (Algebra, incorrect) leave the
  mastery map {Thermodynamics: 0, Algebra: 0} and the weak topics
  {Thermodynamics, Algebra}.
\<close>

theorem example_thermodynamics_algebra:
  "outcomes answers3 quiz3 =
     [(''Thermodynamics'', True), (''Thermodynamics'', False), (''Algebra'', False)]
   \<and> currentMastery (forEach answers3 quiz3 tally0) =
     [''Thermodynamics'' \<mapsto> Number 0, ''Algebra'' \<mapsto> Number 0]
   \<and> set (weakTopicsSet (forEach answers3 quiz3 tally0)) = {''Thermodynamics'', ''Algebra''}"
  by (simp add: outcomes_def quiz3_def answers3_def tally0_def mkq_def isCorrect_def
      forEach_body_def Let_def set_has_def set_add_def set_delete_def or_zero_def
      js_get_plain js_set_plain plain_examples round_double_exact)

text \<open>
  C6. The update is not idempotent: one correct answer on Algebra, applied to the empty
  state once, leaves the counter 1, and applied a second time leaves the counter 2.
\<close>

theorem forEach_not_idempotent:
  "\<exists>a qs st. qs \<noteq> [] \<and>
     currentMastery (forEach a qs (forEach a qs st)) \<noteq> currentMastery (forEach a qs st)"
proof -
  let ?a = "[1 \<mapsto> 0] :: int \<rightharpoonup> int" and ?qs = "[mkq 1 0 ''Algebra'']"
  have two: "currentMastery (forEach ?a ?qs (forEach ?a ?qs tally0)) ''Algebra'' = Some (Number 2)"
    by (simp add: body_mastery tally0_def mkq_def isCorrect_def or_zero_def
        js_get_plain js_set_plain plain_examples round_double_exact)
  have one: "currentMastery (forEach ?a ?qs tally0) ''Algebra'' = Some (Number 1)"
    by (simp add: body_mastery tally0_def mkq_def isCorrect_def or_zero_def
        js_get_plain js_set_plain plain_examples round_double_exact)
  have "currentMastery (forEach ?a ?qs (forEach ?a ?qs tally0)) \<noteq>
        currentMastery (forEach ?a ?qs tally0)"
  proof
    assume "currentMastery (forEach ?a ?qs (forEach ?a ?qs tally0)) =
            currentMastery (forEach ?a ?qs tally0)"
    then have "currentMastery (forEach ?a ?qs (forEach ?a ?qs tally0)) ''Algebra'' =
               currentMastery (forEach ?a ?qs tally0) ''Algebra''"
      by (rule arg_cong)
    with two one show False by simp
  qed
  moreover have "?qs \<noteq> []" by simp
  ultimately show ?thesis by blast
qed

text \<open>
  C9, as stated: the counter of the topic of an unanswered question is decremented, not
  below 0. Two unanswered questions where it is not: a counter of \<open>2^54\<close> stays \<open>2^54\<close>,
  since \<open>2^54 - 1\<close> is not a double; and on the topic \<open>constructor\<close>, absent from the
  map, the loop stores \<open>NaN\<close>.
\<close>

theorem unanswered_counter_not_decremented:
  "Map.empty (id_q (mkq 1 0 ''Algebra'')) = (None :: int option) \<and>
   currentMastery (forEach_body Map.empty (mkq 1 0 ''Algebra'')
       \<lparr>correctCount = 0, currentMastery = [''Algebra'' \<mapsto> Number (2 ^ 54)], weakTopicsSet = []\<rparr>)
     ''Algebra'' = Some (Number (2 ^ 54)) \<and>
   max 0 (2 ^ 54 - 1) \<noteq> (2 ^ 54 :: int) \<and>
   Map.empty (id_q (mkq 1 0 ''constructor'')) = (None :: int option) \<and>
   currentMastery tally0 ''constructor'' = None \<and>
   currentMastery (forEach_body Map.empty (mkq 1 0 ''constructor'') tally0) ''constructor'' = Some NaN"
  by (simp add: body_mastery tally0_def mkq_def isCorrect_def or_zero_def js_set_def
      constructor_builtin js_get_plain js_set_plain plain_examples round_2_54_1)

text \<open>
  C9, amended: a question whose id has no entry in \<open>answers\<close> is not correct: the loop
  body leaves \<open>correctCount\<close> as it is and puts the topic among the weak topics; and when
  the topic does not name a member of \<open>Object.prototype\<close> and its counter is absent or
  an integer of at most \<open>2^53\<close>, the body sets the counter to max(0, counter - 1), with
  0 for an absent counter.
\<close>

theorem unanswered_question_is_incorrect:
  assumes "a (id_q q) = None"
  shows "\<not> isCorrect a q \<and>
     correctCount (forEach_body a q st) = correctCount st \<and>
     topic q \<in> set (weakTopicsSet (forEach_body a q st)) \<and>
     (topic q \<notin> set Object_prototype_names \<and>
      currentMastery st (topic q) = map_option Number c \<and>
      (case c of None \<Rightarrow> 0 | Some n \<Rightarrow> n) \<le> 2 ^ 53 \<longrightarrow>
      currentMastery (forEach_body a q st) (topic q) =
        Some (Number (max 0 ((case c of None \<Rightarrow> 0 | Some n \<Rightarrow> n) - 1))))"
proof -
  have wrong: "\<not> isCorrect a q"
    using assms by (simp add: isCorrect_def)
  have counter: "currentMastery (forEach_body a q st) (topic q) =
        Some (Number (max 0 ((case c of None \<Rightarrow> 0 | Some n \<Rightarrow> n) - 1)))"
    if plain: "topic q \<notin> set Object_prototype_names"
      and own: "currentMastery st (topic q) = map_option Number c"
      and small: "(case c of None \<Rightarrow> 0 | Some n \<Rightarrow> n) \<le> 2 ^ 53"
    using plain_minus [where k = "topic q" and obj = "currentMastery st" and c = c, OF plain own small] wrong
    by (simp add: body_mastery js_set_plain [OF plain])
  from wrong counter show ?thesis
    by (simp add: body_count body_weak)
qed

theorem unanswered_question_is_incorrect_witness:
  "[1 \<mapsto> 0] (id_q (mkq 3 1 ''Algebra'')) = (None :: int option) \<and>
   \<not> isCorrect [1 \<mapsto> 0] (mkq 3 1 ''Algebra'') \<and>
   correctCount (forEach_body [1 \<mapsto> 0] (mkq 3 1 ''Algebra'') tally1) = 0 \<and>
   currentMastery (forEach_body [1 \<mapsto> 0] (mkq 3 1 ''Algebra'') tally1) ''Algebra'' = Some (Number 1) \<and>
   ''Algebra'' \<in> set (weakTopicsSet (forEach_body [1 \<mapsto> 0] (mkq 3 1 ''Algebra'') tally1))"
proof -
  have h: "[1 \<mapsto> 0] (id_q (mkq 3 1 ''Algebra'')) = (None :: int option)"
    by (simp add: mkq_def)
  from unanswered_question_is_incorrect
         [of "[1 \<mapsto> 0]" "mkq 3 1 ''Algebra''" tally1 "Some 2", OF h] h
  show ?thesis
    by (simp add: mkq_def tally1_def plain_examples)
qed

text \<open>
  C10. A topic that no question of the quiz carries keeps its mastery counter, present
  or absent, and its membership among the weak topics.
\<close>

theorem forEach_frame:
  assumes "t \<notin> topic ` set qs"
  shows "currentMastery (forEach a qs st) t = currentMastery st t \<and>
         (t \<in> set (weakTopicsSet (forEach a qs st)) \<longleftrightarrow> t \<in> set (weakTopicsSet st))"
  using assms
  by (induction qs arbitrary: st) (auto simp: body_mastery body_weak js_set_other)

theorem forEach_frame_witness:
  "''Optics'' \<notin> topic ` set quiz3 \<and>
   currentMastery (forEach answers3 quiz3 tally1) ''Optics'' = None \<and>
   ''Optics'' \<in> set (weakTopicsSet (forEach answers3 quiz3 tally1))"
proof -
  have h: "''Optics'' \<notin> topic ` set quiz3"
    by (simp add: quiz3_def mkq_def)
  from forEach_frame [OF h, of answers3 tally1] h show ?thesis
    by (simp add: tally1_def)
qed

section \<open>Properties of handleSubmit\<close>

lemma handleSubmit_no_quiz:
  "quizData c = None \<Longrightarrow> handleSubmit now1 now2 (c, s) = Returns (c, s)"
  by (simp add: handleSubmit_def)

text \<open>
  When the three values can be read, the handler returns; what it stores is what the loop
  computes from them.
\<close>

lemma handleSubmit_returns:
  assumes "quizData c = Some qd"
    and "readItem Map.empty (studyBuddy_topic_mastery s) = Inr m0"
    and "readItem [] (studyBuddy_weakTopics s) = Inr w0"
    and "readItem [] (studyBuddy_quizHistory s) = Inr h"
  shows "handleSubmit now1 now2 (c, s) =
     (let st = forEach (answers c) (questions qd)
                 \<lparr>correctCount = 0, currentMastery = m0, weakTopicsSet = new_Set w0\<rparr>
      in Returns (c\<lparr>score := correctCount st, submitted := True\<rparr>,
                  s\<lparr>studyBuddy_topic_mastery := Stored (JSON_stringify (currentMastery st)),
                    studyBuddy_weakTopics := Stored (weakTopicsSet st),
                    studyBuddy_quizHistory := Stored (h @ [result now1 now2 c qd (correctCount st)])\<rparr>))"
  using assms by (simp add: handleSubmit_def Let_def)

text \<open>An absent key is read as the empty structure.\<close>

lemma handleSubmit_absent_as_empty:
  assumes "quizData c = Some qd"
  shows "handleSubmit now1 now2
           (c, \<lparr>studyBuddy_topic_mastery = Absent, studyBuddy_weakTopics = Absent,
                studyBuddy_quizHistory = Absent\<rparr>) =
         handleSubmit now1 now2
           (c, \<lparr>studyBuddy_topic_mastery = Stored Map.empty, studyBuddy_weakTopics = Stored [],
                studyBuddy_quizHistory = Stored []\<rparr>)"
  using assms by (simp add: handleSubmit_def Let_def readItem_def)

text \<open>
  A text that does not parse makes the handler throw: before any write for the mastery
  map and the weak topics, after the first two writes for the history.
\<close>

lemma handleSubmit_mastery_unparsable:
  "quizData c = Some qd \<Longrightarrow> studyBuddy_topic_mastery s = Unparsable \<Longrightarrow>
   handleSubmit now1 now2 (c, s) = Throws SyntaxError (c, s)"
  by (simp add: handleSubmit_def readItem_def)

lemma handleSubmit_weak_unparsable:
  "quizData c = Some qd \<Longrightarrow> studyBuddy_weakTopics s = Unparsable \<Longrightarrow>
   handleSubmit now1 now2 (c, s) = Throws SyntaxError (c, s)"
  by (cases "studyBuddy_topic_mastery s") (simp_all add: handleSubmit_def readItem_def)

lemma handleSubmit_history_unparsable:
  assumes "quizData c = Some qd"
    and "readItem Map.empty (studyBuddy_topic_mastery s) = Inr m0"
    and "readItem [] (studyBuddy_weakTopics s) = Inr w0"
    and "studyBuddy_quizHistory s = Unparsable"
  shows "handleSubmit now1 now2 (c, s) =
     (let st = forEach (answers c) (questions qd)
                 \<lparr>correctCount = 0, currentMastery = m0, weakTopicsSet = new_Set w0\<rparr>
      in Throws SyntaxError
           (c, s\<lparr>studyBuddy_topic_mastery := Stored (JSON_stringify (currentMastery st)),
                  studyBuddy_weakTopics := Stored (weakTopicsSet st)\<rparr>))"
  using assms by (simp add: handleSubmit_def Let_def readItem_def)

text \<open>The load of the weak topics on mount reads such a text as the empty array.\<close>

lemma useEffect_unparsable:
  "studyBuddy_weakTopics s = Unparsable \<Longrightarrow> useEffect_availableWeakTopics s = []"
  by (simp add: useEffect_availableWeakTopics_def)

text \<open>A submission in full, on a store that holds one earlier result.\<close>

lemma handleSubmit_example:
  "handleSubmit 1700000000123 1700000000124 (overlay3, storage1) =
     Returns (overlay3\<lparr>score := 1, submitted := True\<rparr>,
       \<lparr>studyBuddy_topic_mastery =
          Stored [''Algebra'' \<mapsto> Number 1, ''Thermodynamics'' \<mapsto> Number 0],
        studyBuddy_weakTopics = Stored [''Optics'', ''Thermodynamics'', ''Algebra''],
        studyBuddy_quizHistory = Stored [result0,
          \<lparr>id_r = ''1700000000123'', title_r = ''Physics and maths'', score_r = 1,
           totalQuestions_r = 3, date_r = 1700000000124, topic_r = Some ''Physics''\<rparr>]\<rparr>)"
  by (simp add: handleSubmit_def Let_def readItem_def overlay3_def storage1_def quizdata3_def
      quiz3_def answers3_def mkq_def isCorrect_def forEach_body_def set_has_def set_add_def
      set_delete_def or_zero_def new_Set_def result_def topicDisplay_def toString_def digit_def
      js_get_plain js_set_plain plain_examples round_double_exact
      JSON_stringify_empty JSON_stringify_upd fun_upd_twist)

text \<open>
  A submission on an empty store of one question on the topic \<open>constructor\<close>, answered
  incorrectly: the mastery object is persisted with \<open>null\<close> under that topic.
\<close>

lemma handleSubmit_constructor_example:
  "handleSubmit 1700000000123 1700000000124
     (overlay3\<lparr>quizData := Some \<lparr>title = ''Classes'', questions = [mkq 1 1 ''constructor'']\<rparr>\<rparr>,
      \<lparr>studyBuddy_topic_mastery = Absent, studyBuddy_weakTopics = Absent,
       studyBuddy_quizHistory = Absent\<rparr>) =
     Returns (overlay3\<lparr>quizData := Some \<lparr>title = ''Classes'', questions = [mkq 1 1 ''constructor'']\<rparr>,
                       score := 0, submitted := True\<rparr>,
       \<lparr>studyBuddy_topic_mastery = Stored [''constructor'' \<mapsto> Null],
        studyBuddy_weakTopics = Stored [''constructor''],
        studyBuddy_quizHistory = Stored
          [\<lparr>id_r = ''1700000000123'', title_r = ''Classes'', score_r = 0,
            totalQuestions_r = 1, date_r = 1700000000124, topic_r = Some ''Physics''\<rparr>]\<rparr>)"
  by (simp add: handleSubmit_def Let_def readItem_def overlay3_def
      answers3_def mkq_def isCorrect_def forEach_body_def set_has_def set_add_def
      set_delete_def or_zero_def new_Set_def result_def topicDisplay_def toString_def digit_def
      js_set_def constructor_builtin JSON_stringify_empty JSON_stringify_upd)

text \<open>
  C5. Submitting a quiz, whatever its questions and answers, on a store whose mastery map,
  weak topics and history can be read: the handler returns, the stored history is the
  prior list with one record appended at its end, its length is the prior length plus 1,
  every prior record is at its place unchanged, and the new record is the result of this
  quiz, its score the number of correct questions.
\<close>

theorem history_grows_by_one:
  assumes "quizData c = Some qd"
    and "readItem Map.empty (studyBuddy_topic_mastery s) = Inr m0"
    and "readItem [] (studyBuddy_weakTopics s) = Inr w0"
    and "readItem [] (studyBuddy_quizHistory s) = Inr h"
  shows "\<exists>c' s' r h'. handleSubmit now1 now2 (c, s) = Returns (c', s') \<and>
           studyBuddy_quizHistory s' = Stored h' \<and>
           h' = h @ [r] \<and>
           length h' = length h + 1 \<and>
           (\<forall>i < length h. h' ! i = h ! i) \<and>
           r = result now1 now2 c qd (int (length (filter (isCorrect (answers c)) (questions qd))))"
  by (simp add: handleSubmit_returns [OF assms] Let_def forEach_count nth_append)

theorem history_grows_by_one_witness:
  "quizData overlay3 = Some quizdata3 \<and>
   readItem Map.empty (studyBuddy_topic_mastery storage1) = Inr [''Algebra'' \<mapsto> Number 2] \<and>
   readItem [] (studyBuddy_weakTopics storage1) = Inr [''Optics''] \<and>
   readItem [] (studyBuddy_quizHistory storage1) = Inr [result0] \<and>
   (\<exists>c' s' r. handleSubmit 1700000000123 1700000000124 (overlay3, storage1) = Returns (c', s') \<and>
           studyBuddy_quizHistory s' = Stored [result0, r] \<and>
           r = result 1700000000123 1700000000124 overlay3 quizdata3 1)"
proof -
  have h1: "quizData overlay3 = Some quizdata3" by (simp add: overlay3_def)
  have h2: "readItem Map.empty (studyBuddy_topic_mastery storage1) = Inr [''Algebra'' \<mapsto> Number 2]"
    by (simp add: storage1_def readItem_def)
  have h3: "readItem [] (studyBuddy_weakTopics storage1) = Inr [''Optics'']"
    by (simp add: storage1_def readItem_def)
  have h4: "readItem [] (studyBuddy_quizHistory storage1) = Inr [result0]"
    by (simp add: storage1_def readItem_def)
  have n: "int (length (filter (isCorrect (answers overlay3)) (questions quizdata3))) = 1"
    by (simp add: overlay3_def quizdata3_def quiz3_def answers3_def mkq_def isCorrect_def)
  from history_grows_by_one [OF h1 h2 h3 h4, of 1700000000123 1700000000124]
  have "\<exists>c' s' r. handleSubmit 1700000000123 1700000000124 (overlay3, storage1) = Returns (c', s') \<and>
           studyBuddy_quizHistory s' = Stored [result0, r] \<and>
           r = result 1700000000123 1700000000124 overlay3 quizdata3 1"
    unfolding n by auto
  with h1 h2 h3 h4 show ?thesis by blast
qed

text \<open>
  C8. A persisted value that cannot be read should count as the empty structure, with no
  error. \<open>handleSubmit\<close> does this for an absent key only
  (\<open>handleSubmit_absent_as_empty\<close>). On a store whose mastery text does not parse it
  throws a \<open>SyntaxError\<close>: nothing is written, and the quiz is not marked as submitted.
\<close>

theorem handleSubmit_unparsable_mastery_throws:
  "handleSubmit 1700000000123 1700000000124 (overlay3, storage_corrupt) =
     Throws SyntaxError (overlay3, storage_corrupt)"
  by (simp add: handleSubmit_def readItem_def overlay3_def storage_corrupt_def)

section \<open>Properties of clearHistory\<close>

text \<open>
  C7, as stated: on every store, \<open>clearHistory\<close> empties the persisted history. It does
  not when the user declines the prompt: the store keeps its history.
\<close>

theorem clearHistory_declined_keeps_history:
  "readItem [] (studyBuddy_quizHistory (snd (clearHistory False ([result0], storage1)))) \<noteq> Inr []"
  by (simp add: clearHistory_def storage1_def readItem_def)

text \<open>
  C7, amended: on every store, \<open>clearHistory\<close> leaves the persisted mastery map and the
  persisted weak topics as they are; when the user confirms the prompt, it removes the
  history key, so that the persisted history reads as the empty list.
\<close>

theorem clearHistory_confirmed:
  "studyBuddy_topic_mastery (snd (clearHistory ok m)) = studyBuddy_topic_mastery (snd m) \<and>
   studyBuddy_weakTopics (snd (clearHistory ok m)) = studyBuddy_weakTopics (snd m) \<and>
   (ok \<longrightarrow> studyBuddy_quizHistory (snd (clearHistory ok m)) = Absent \<and>
          readItem [] (studyBuddy_quizHistory (snd (clearHistory ok m))) = Inr [])"
  by (simp add: clearHistory_def readItem_def)

theorem clearHistory_confirmed_witness:
  "studyBuddy_topic_mastery (snd (clearHistory True ([result0], storage1))) =
     Stored [''Algebra'' \<mapsto> Number 2] \<and>
   studyBuddy_weakTopics (snd (clearHistory True ([result0], storage1))) = Stored [''Optics''] \<and>
   readItem [] (studyBuddy_quizHistory (snd (clearHistory True ([result0], storage1)))) = Inr []"
  using clearHistory_confirmed [of True "([result0], storage1)"]
  by (simp add: storage1_def clearHistory_def readItem_def)

end
